theory Spec2Isabelle
  imports Main
begin

section \<open>Python preliminaries\<close>

text \<open>
  Strings are \<^typ>\<open>string\<close>; the language codes, registry keys and URLs of both services
  are ASCII. An f-string is the concatenation of its pieces. A raised exception is a value
  \<open>Exn msg\<close> carrying \<open>str(e)\<close>; an \<open>HTTPException\<close> carries its status code and
  detail. Wall-clock latency fields of the responses are left out of the model.
\<close>

datatype exn = Exn string

datatype http_exception = HTTPException nat string

fun exn_str :: "exn \<Rightarrow> string" where
  "exn_str (Exn msg) = msg"

text \<open>
  A \<open>dict\<close> is an association list in insertion order. \<open>d[k] = v\<close> replaces the
  value of a key that is present and appends a new key otherwise.
\<close>

type_synonym ('k, 'v) dict = "('k \<times> 'v) list"

definition dict_get :: "('k, 'v) dict \<Rightarrow> 'k \<Rightarrow> 'v option" where
  "dict_get d k = map_of d k"

definition dict_contains :: "('k, 'v) dict \<Rightarrow> 'k \<Rightarrow> bool" where
  "dict_contains d k = (dict_get d k \<noteq> None)"

definition dict_set :: "('k, 'v) dict \<Rightarrow> 'k \<Rightarrow> 'v \<Rightarrow> ('k, 'v) dict" where
  "dict_set d k v =
     (if dict_contains d k then map (\<lambda>(k', v'). if k' = k then (k', v) else (k', v')) d
      else d @ [(k, v)])"

definition dict_keys :: "('k, 'v) dict \<Rightarrow> 'k list" where
  "dict_keys d = map fst d"

text \<open>\<open>s.split(sep)\<close> for a one-character separator, \<open>s.strip()\<close>, \<open>s.split(sep, 1)\<close>
  on a string that contains \<open>sep\<close>, and \<open>s.endswith(suffix)\<close>.\<close>

fun split_sep :: "char \<Rightarrow> string \<Rightarrow> string list" where
  "split_sep sep [] = [[]]"
| "split_sep sep (c # cs) =
     (if c = sep then [] # split_sep sep cs
      else (case split_sep sep cs of
              [] \<Rightarrow> [[c]]
            | w # ws \<Rightarrow> (c # w) # ws))"

definition py_isspace :: "char \<Rightarrow> bool" where
  "py_isspace c = (of_char c \<in> set [9, 10, 11, 12, 13, 28, 29, 30, 31, 32 :: nat])"

definition strip :: "string \<Rightarrow> string" where
  "strip s = rev (dropWhile py_isspace (rev (dropWhile py_isspace s)))"

definition split_first :: "char \<Rightarrow> string \<Rightarrow> string \<times> string" where
  "split_first sep s = (takeWhile (\<lambda>c. c \<noteq> sep) s, tl (dropWhile (\<lambda>c. c \<noteq> sep) s))"

definition endswith :: "string \<Rightarrow> string \<Rightarrow> bool" where
  "endswith s suf = (length suf \<le> length s \<and> drop (length s - length suf) s = suf)"

text \<open>\<open>f"{source_lang}-{target_lang}"\<close>, the cache key of the Bergamot service and the
  registry key of the Hugging Face service.\<close>

definition pair_key :: "string \<Rightarrow> string \<Rightarrow> string" where
  "pair_key source_lang target_lang = source_lang @ ''-'' @ target_lang"

subsection \<open>Observable effects\<close>

text \<open>
  Every interaction with the outside world and every write to a model cache is appended
  to an event log kept in the state, in program order. The log is the load-count probe of
  the specification. The outcome of the \<open>n\<close>-th interaction is given by an oracle indexed
  by the number of events so far, so the same call may fail now and succeed later.
\<close>

datatype log_record =
    DownloadFailedHTTP nat
  | DownloadFailed exn
  | PreloadFailed string exn
  | ReadinessFailed exn
  | TranslationFailed exn
  | BatchTranslationFailed exn

datatype event =
    HttpGet string
  | Gunzip string
  | WriteBytes string
  | TokenizerFromPretrained string
  | ModelFromPretrained string
  | ModelTo string
  | Publish string
  | LogError log_record

record world =
  events :: "event list"

definition emit :: "event \<Rightarrow> 'a world_scheme \<Rightarrow> 'a world_scheme" where
  "emit e st = st\<lparr>events := events st @ [e]\<rparr>"

definition now :: "'a world_scheme \<Rightarrow> nat" where
  "now st = length (events st)"

section \<open>Bergamot service\<close>

definition MODEL_REGISTRY_items :: "((string \<times> string) \<times> string) list" where
  "MODEL_REGISTRY_items =
    [((''en'', ''es''), ''https://storage.googleapis.com/bergamot-models-sandbox/prod/ende/model.enes.intgemm.alphas.bin.gz''),
     ((''en'', ''de''), ''https://storage.googleapis.com/bergamot-models-sandbox/prod/ende/model.ende.intgemm.alphas.bin.gz''),
     ((''en'', ''fr''), ''https://storage.googleapis.com/bergamot-models-sandbox/prod/enfr/model.enfr.intgemm.alphas.bin.gz''),
     ((''en'', ''pt''), ''https://storage.googleapis.com/bergamot-models-sandbox/prod/enpt/model.enpt.intgemm.alphas.bin.gz''),
     ((''en'', ''it''), ''https://storage.googleapis.com/bergamot-models-sandbox/prod/enit/model.enit.intgemm.alphas.bin.gz''),
     ((''en'', ''nl''), ''https://storage.googleapis.com/bergamot-models-sandbox/prod/ennl/model.ennl.intgemm.alphas.bin.gz''),
     ((''en'', ''ru''), ''https://storage.googleapis.com/bergamot-models-sandbox/prod/enru/model.enru.intgemm.alphas.bin.gz''),
     ((''en'', ''pl''), ''https://storage.googleapis.com/bergamot-models-sandbox/prod/enpl/model.enpl.intgemm.alphas.bin.gz''),
     ((''en'', ''cs''), ''https://storage.googleapis.com/bergamot-models-sandbox/prod/encs/model.encs.intgemm.alphas.bin.gz''),
     ((''en'', ''et''), ''https://storage.googleapis.com/bergamot-models-sandbox/prod/enet/model.enet.intgemm.alphas.bin.gz''),
     ((''es'', ''en''), ''https://storage.googleapis.com/bergamot-models-sandbox/prod/esen/model.esen.intgemm.alphas.bin.gz''),
     ((''de'', ''en''), ''https://storage.googleapis.com/bergamot-models-sandbox/prod/deen/model.deen.intgemm.alphas.bin.gz''),
     ((''fr'', ''en''), ''https://storage.googleapis.com/bergamot-models-sandbox/prod/fren/model.fren.intgemm.alphas.bin.gz''),
     ((''pt'', ''en''), ''https://storage.googleapis.com/bergamot-models-sandbox/prod/pten/model.pten.intgemm.alphas.bin.gz''),
     ((''it'', ''en''), ''https://storage.googleapis.com/bergamot-models-sandbox/prod/iten/model.iten.intgemm.alphas.bin.gz''),
     ((''nl'', ''en''), ''https://storage.googleapis.com/bergamot-models-sandbox/prod/nlen/model.nlen.intgemm.alphas.bin.gz''),
     ((''ru'', ''en''), ''https://storage.googleapis.com/bergamot-models-sandbox/prod/ruen/model.ruen.intgemm.alphas.bin.gz''),
     ((''pl'', ''en''), ''https://storage.googleapis.com/bergamot-models-sandbox/prod/plen/model.plen.intgemm.alphas.bin.gz''),
     ((''cs'', ''en''), ''https://storage.googleapis.com/bergamot-models-sandbox/prod/csen/model.csen.intgemm.alphas.bin.gz''),
     ((''et'', ''en''), ''https://storage.googleapis.com/bergamot-models-sandbox/prod/eten/model.eten.intgemm.alphas.bin.gz'')]"

definition MODEL_REGISTRY :: "(string \<times> string) \<Rightarrow> string option" where
  "MODEL_REGISTRY = map_of MODEL_REGISTRY_items"

text \<open>The two import probes at module load; the placeholder needs neither.\<close>

record engines =
  BERGAMOT_AVAILABLE :: bool
  CTRANSLATE2_AVAILABLE :: bool

text \<open>The dictionary stored by \<open>get_translator\<close>.\<close>

record translator =
  source :: string
  target :: string
  loaded :: bool

text \<open>
  The process state: the translator cache \<open>loaded_translators\<close> and, for each
  subdirectory of \<open>MODEL_CACHE_DIR\<close> that holds a \<open>model.bin\<close>, the bytes of that file.
  Directory creation and the file write are taken to succeed.
\<close>

record bergamot_state = world +
  loaded_translators :: "(string, translator) dict"
  model_files :: "(string, string) dict"

definition bergamot_init :: bergamot_state where
  "bergamot_init = \<lparr>events = [], loaded_translators = [], model_files = []\<rparr>"

text \<open>The network and \<open>gzip\<close>: a GET either raises or answers with a status and a body.\<close>

datatype http_result = ClientError exn | Response nat string

record net =
  http_get :: "nat \<Rightarrow> string \<Rightarrow> http_result"
  gzip_decompress :: "string \<Rightarrow> exn + string"

definition download_model ::
  "net \<Rightarrow> string \<Rightarrow> string \<Rightarrow> bergamot_state \<Rightarrow> string option \<times> bergamot_state" where
  "download_model nw source_lang target_lang st =
     (case MODEL_REGISTRY (source_lang, target_lang) of
        None \<Rightarrow> (None, st)
      | Some url \<Rightarrow>
          let model_dir = pair_key source_lang target_lang in
          if dict_contains (model_files st) model_dir then (Some model_dir, st)
          else
            (case http_get nw (now st) url of
               ClientError e \<Rightarrow>
                 (None, emit (LogError (DownloadFailed e)) (emit (HttpGet url) st))
             | Response status content \<Rightarrow>
                 let st1 = emit (HttpGet url) st in
                 if status = 200 then
                   (if endswith url ''.gz'' then
                      (case gzip_decompress nw content of
                         Inl e \<Rightarrow>
                           (None, emit (LogError (DownloadFailed e)) (emit (Gunzip url) st1))
                       | Inr content' \<Rightarrow>
                           (Some model_dir,
                            emit (WriteBytes model_dir)
                              ((emit (Gunzip url) st1)
                                 \<lparr>model_files := dict_set (model_files st1) model_dir content'\<rparr>)))
                    else
                      (Some model_dir,
                       emit (WriteBytes model_dir)
                         (st1\<lparr>model_files := dict_set (model_files st1) model_dir content\<rparr>)))
                 else (None, emit (LogError (DownloadFailedHTTP status)) st1)))"

definition get_translator ::
  "string \<Rightarrow> string \<Rightarrow> bergamot_state \<Rightarrow> translator \<times> bergamot_state" where
  "get_translator source_lang target_lang st =
     (let key = pair_key source_lang target_lang in
      case dict_get (loaded_translators st) key of
        Some tr \<Rightarrow> (tr, st)
      | None \<Rightarrow>
          let tr = \<lparr>source = source_lang, target = target_lang, loaded = True\<rparr>
          in (tr, emit (Publish key)
                    (st\<lparr>loaded_translators := dict_set (loaded_translators st) key tr\<rparr>)))"

definition translate_with_bergamot :: "string \<Rightarrow> string \<Rightarrow> string \<Rightarrow> string" where
  "translate_with_bergamot text source_lang target_lang =
     ''['' @ source_lang @ ''->'' @ target_lang @ ''] '' @ text"

definition translate_with_ctranslate2 :: "string \<Rightarrow> string \<Rightarrow> string \<Rightarrow> string" where
  "translate_with_ctranslate2 text source_lang target_lang =
     ''['' @ source_lang @ ''->'' @ target_lang @ ''] '' @ text"

text \<open>The \<open>if\<close>/\<open>elif\<close>/\<open>else\<close> chain shared by both handlers: the translated text and
  the engine label.\<close>

definition translate_one :: "engines \<Rightarrow> string \<Rightarrow> string \<Rightarrow> string \<Rightarrow> string \<times> string" where
  "translate_one eng text source_lang target_lang =
     (if BERGAMOT_AVAILABLE eng then
        (translate_with_bergamot text source_lang target_lang, ''bergamot'')
      else if CTRANSLATE2_AVAILABLE eng then
        (translate_with_ctranslate2 text source_lang target_lang, ''ctranslate2'')
      else (''['' @ source_lang @ ''->'' @ target_lang @ ''] '' @ text, ''placeholder''))"

record translation_request =
  req_text :: string
  req_source_lang :: string
  req_target_lang :: string

record translation_response =
  translated_text :: string
  out_source_lang :: string
  out_target_lang :: string
  engine :: string

record batch_translation_request =
  req_texts :: "string list"
  breq_source_lang :: string
  breq_target_lang :: string

record batch_translation_response =
  translations_list :: "string list"
  bsource_lang :: string
  btarget_lang :: string
  bengine :: string
  count :: nat

definition unsupported_pair :: "string \<Rightarrow> string \<Rightarrow> http_exception" where
  "unsupported_pair s t = HTTPException 400 (''Unsupported language pair: '' @ s @ '' -> '' @ t)"

definition bergamot_translate ::
  "engines \<Rightarrow> translation_request \<Rightarrow> bergamot_state
     \<Rightarrow> (http_exception + translation_response) \<times> bergamot_state" where
  "bergamot_translate eng request st =
     (if MODEL_REGISTRY (req_source_lang request, req_target_lang request) = None then
        (Inl (unsupported_pair (req_source_lang request) (req_target_lang request)), st)
      else
        let st' = snd (get_translator (req_source_lang request) (req_target_lang request) st);
            (translated, engine_name) =
               translate_one eng (req_text request) (req_source_lang request)
                 (req_target_lang request)
        in (Inr \<lparr>translated_text = translated,
                  out_source_lang = req_source_lang request,
                  out_target_lang = req_target_lang request,
                  engine = engine_name\<rparr>, st'))"

text \<open>The loop of the batch handler: \<open>translations\<close> and \<open>engine\<close> are the loop's
  variables, updated once per text in list order.\<close>

fun translate_loop ::
  "engines \<Rightarrow> string \<Rightarrow> string \<Rightarrow> string list \<Rightarrow> string list \<times> string
     \<Rightarrow> string list \<times> string" where
  "translate_loop eng s t [] acc = acc"
| "translate_loop eng s t (text # texts) (translations, engine_name) =
     (let (translated, engine_name') = translate_one eng text s t
      in translate_loop eng s t texts (translations @ [translated], engine_name'))"

definition bergamot_translate_batch ::
  "engines \<Rightarrow> batch_translation_request \<Rightarrow> bergamot_state
     \<Rightarrow> (http_exception + batch_translation_response) \<times> bergamot_state" where
  "bergamot_translate_batch eng request st =
     (if MODEL_REGISTRY (breq_source_lang request, breq_target_lang request) = None then
        (Inl (unsupported_pair (breq_source_lang request) (breq_target_lang request)), st)
      else
        let st' = snd (get_translator (breq_source_lang request) (breq_target_lang request) st);
            (translations', engine_name) =
               translate_loop eng (breq_source_lang request) (breq_target_lang request)
                 (req_texts request) ([], ''placeholder'')
        in (Inr \<lparr>translations_list = translations',
                  bsource_lang = breq_source_lang request,
                  btarget_lang = breq_target_lang request,
                  bengine = engine_name,
                  count = length translations'\<rparr>, st'))"

text \<open>One iteration of the preload loop of \<open>lifespan\<close>, and the loop over
  \<open>PRELOAD_MODELS.split(",")\<close>. The value returned by \<open>download_model\<close> is dropped.\<close>

definition bergamot_preload_pair :: "net \<Rightarrow> string \<Rightarrow> bergamot_state \<Rightarrow> bergamot_state" where
  "bergamot_preload_pair nw pair st =
     (let pair' = strip pair in
      if pair' \<noteq> [] \<and> CHR ''-'' \<in> set pair' then
        (let (source_lang, target_lang) = split_first (CHR ''-'') pair' in
         if MODEL_REGISTRY (source_lang, target_lang) \<noteq> None
         then snd (download_model nw source_lang target_lang st)
         else st)
      else st)"

fun bergamot_preload :: "net \<Rightarrow> string list \<Rightarrow> bergamot_state \<Rightarrow> bergamot_state" where
  "bergamot_preload nw [] st = st"
| "bergamot_preload nw (pair # pairs) st =
     bergamot_preload nw pairs (bergamot_preload_pair nw pair st)"

definition bergamot_lifespan :: "net \<Rightarrow> string \<Rightarrow> bergamot_state \<Rightarrow> bergamot_state" where
  "bergamot_lifespan nw PRELOAD_MODELS st =
     bergamot_preload nw (split_sep (CHR '','') PRELOAD_MODELS) st"

text \<open>The read-only endpoints: \<open>/health\<close> (status, engine, loaded models, available
  pairs), \<open>/languages\<close> and \<open>/models\<close> (cached keys, count, available pairs).\<close>

definition bergamot_health_check ::
  "engines \<Rightarrow> bergamot_state \<Rightarrow> string \<times> string \<times> nat \<times> nat" where
  "bergamot_health_check eng st =
     (''healthy'',
      (if BERGAMOT_AVAILABLE eng then ''bergamot''
       else if CTRANSLATE2_AVAILABLE eng then ''ctranslate2'' else ''placeholder''),
      length (loaded_translators st),
      length MODEL_REGISTRY_items)"

definition bergamot_get_languages :: "(string \<times> string) list" where
  "bergamot_get_languages = map fst MODEL_REGISTRY_items"

definition bergamot_get_loaded_models :: "bergamot_state \<Rightarrow> string list \<times> nat \<times> nat" where
  "bergamot_get_loaded_models st =
     (dict_keys (loaded_translators st), length (loaded_translators st),
      length MODEL_REGISTRY_items)"

text \<open>\<open>/models/download\<close>: the background task runs \<open>download_model\<close> after the
  response has been sent.\<close>

definition download_model_endpoint ::
  "net \<Rightarrow> string \<Rightarrow> string \<Rightarrow> bergamot_state \<Rightarrow> (http_exception + string) \<times> bergamot_state" where
  "download_model_endpoint nw source_lang target_lang st =
     (if MODEL_REGISTRY (source_lang, target_lang) = None then
        (Inl (unsupported_pair source_lang target_lang), st)
      else
        (Inr (''Download started for '' @ source_lang @ ''->'' @ target_lang),
         snd (download_model nw source_lang target_lang st)))"

text \<open>The operations of the service, and the state after a sequence of them.\<close>

datatype bergamot_request =
    BTranslate translation_request
  | BTranslateBatch batch_translation_request
  | BHealth
  | BLanguages
  | BModels
  | BDownload string string
  | BLifespan string

definition bergamot_step ::
  "engines \<Rightarrow> net \<Rightarrow> bergamot_request \<Rightarrow> bergamot_state \<Rightarrow> bergamot_state" where
  "bergamot_step eng nw r st =
     (case r of
        BTranslate request \<Rightarrow> snd (bergamot_translate eng request st)
      | BTranslateBatch request \<Rightarrow> snd (bergamot_translate_batch eng request st)
      | BHealth \<Rightarrow> st
      | BLanguages \<Rightarrow> st
      | BModels \<Rightarrow> st
      | BDownload s t \<Rightarrow> snd (download_model_endpoint nw s t st)
      | BLifespan PRELOAD_MODELS \<Rightarrow> bergamot_lifespan nw PRELOAD_MODELS st)"

fun bergamot_run ::
  "engines \<Rightarrow> net \<Rightarrow> bergamot_request list \<Rightarrow> bergamot_state \<Rightarrow> bergamot_state" where
  "bergamot_run eng nw [] st = st"
| "bergamot_run eng nw (r # rs) st = bergamot_run eng nw rs (bergamot_step eng nw r st)"

section \<open>Hugging Face MT service\<close>

definition MODEL_MAPPING_items :: "(string \<times> string) list" where
  "MODEL_MAPPING_items =
    [(''en-hi'', ''Helsinki-NLP/opus-mt-en-hi''),
     (''en-es'', ''Helsinki-NLP/opus-mt-en-es''),
     (''en-fr'', ''Helsinki-NLP/opus-mt-en-fr''),
     (''en-de'', ''Helsinki-NLP/opus-mt-en-de''),
     (''en-it'', ''Helsinki-NLP/opus-mt-en-it''),
     (''en-pt'', ''Helsinki-NLP/opus-mt-en-pt''),
     (''en-nl'', ''Helsinki-NLP/opus-mt-en-nl''),
     (''en-ru'', ''Helsinki-NLP/opus-mt-en-ru''),
     (''en-zh'', ''Helsinki-NLP/opus-mt-en-zh''),
     (''en-ja'', ''Helsinki-NLP/opus-mt-en-jap''),
     (''en-ko'', ''Helsinki-NLP/opus-mt-en-ko''),
     (''en-ar'', ''Helsinki-NLP/opus-mt-en-ar''),
     (''en-tr'', ''Helsinki-NLP/opus-mt-en-tr''),
     (''en-vi'', ''Helsinki-NLP/opus-mt-en-vi''),
     (''en-th'', ''Helsinki-NLP/opus-mt-en-th''),
     (''en-id'', ''Helsinki-NLP/opus-mt-en-id''),
     (''en-pl'', ''Helsinki-NLP/opus-mt-en-pl''),
     (''en-he'', ''Helsinki-NLP/opus-mt-en-he''),
     (''en-mul'', ''Helsinki-NLP/opus-mt-en-mul''),
     (''hi-en'', ''Helsinki-NLP/opus-mt-hi-en''),
     (''es-en'', ''Helsinki-NLP/opus-mt-es-en''),
     (''fr-en'', ''Helsinki-NLP/opus-mt-fr-en''),
     (''de-en'', ''Helsinki-NLP/opus-mt-de-en''),
     (''it-en'', ''Helsinki-NLP/opus-mt-it-en''),
     (''pt-en'', ''Helsinki-NLP/opus-mt-pt-en''),
     (''nl-en'', ''Helsinki-NLP/opus-mt-nl-en''),
     (''ru-en'', ''Helsinki-NLP/opus-mt-ru-en''),
     (''zh-en'', ''Helsinki-NLP/opus-mt-zh-en''),
     (''ja-en'', ''Helsinki-NLP/opus-mt-jap-en''),
     (''ko-en'', ''Helsinki-NLP/opus-mt-ko-en''),
     (''ar-en'', ''Helsinki-NLP/opus-mt-ar-en''),
     (''tr-en'', ''Helsinki-NLP/opus-mt-tr-en''),
     (''es-fr'', ''Helsinki-NLP/opus-mt-es-fr''),
     (''fr-es'', ''Helsinki-NLP/opus-mt-fr-es''),
     (''es-it'', ''Helsinki-NLP/opus-mt-es-it''),
     (''it-es'', ''Helsinki-NLP/opus-mt-it-es''),
     (''es-pt'', ''Helsinki-NLP/opus-mt-es-pt''),
     (''pt-es'', ''Helsinki-NLP/opus-mt-pt-es'')]"

definition MODEL_MAPPING :: "string \<Rightarrow> string option" where
  "MODEL_MAPPING = map_of MODEL_MAPPING_items"

definition MULTILINGUAL_TARGETS :: "string list" where
  "MULTILINGUAL_TARGETS = [''ta'', ''te'', ''bn'', ''mr'', ''gu'', ''kn'', ''ml'', ''pa'', ''or'']"

definition get_model_name :: "string \<Rightarrow> string \<Rightarrow> string option" where
  "get_model_name source_lang target_lang =
     (if source_lang = ''en'' \<and> target_lang \<in> set MULTILINGUAL_TARGETS
      then MODEL_MAPPING ''en-mul''
      else MODEL_MAPPING (pair_key source_lang target_lang))"

text \<open>
  The same function instrumented with the checks it makes, in the order the code makes
  them: the test of the multilingual rule, then the one dictionary lookup of the branch
  taken.
\<close>

datatype resolve_step = GroupingCheck string string | RegistryLookup string

definition get_model_name_steps :: "string \<Rightarrow> string \<Rightarrow> resolve_step list \<times> string option" where
  "get_model_name_steps source_lang target_lang =
     (if source_lang = ''en'' \<and> target_lang \<in> set MULTILINGUAL_TARGETS
      then ([GroupingCheck source_lang target_lang, RegistryLookup ''en-mul''],
            MODEL_MAPPING ''en-mul'')
      else ([GroupingCheck source_lang target_lang,
             RegistryLookup (pair_key source_lang target_lang)],
            MODEL_MAPPING (pair_key source_lang target_lang)))"

text \<open>
  The resolver as the specification words it (section 4.1): the exact pair is looked up
  first and the grouping rule is tried only when that lookup misses.
\<close>

definition resolve_exact_first :: "string \<Rightarrow> string \<Rightarrow> string option" where
  "resolve_exact_first source_lang target_lang =
     (case MODEL_MAPPING (pair_key source_lang target_lang) of
        Some m \<Rightarrow> Some m
      | None \<Rightarrow>
          if source_lang = ''en'' \<and> target_lang \<in> set MULTILINGUAL_TARGETS
          then MODEL_MAPPING ''en-mul'' else None)"

definition resolve_exact_first_steps ::
  "string \<Rightarrow> string \<Rightarrow> resolve_step list" where
  "resolve_exact_first_steps source_lang target_lang =
     (case MODEL_MAPPING (pair_key source_lang target_lang) of
        Some m \<Rightarrow> [RegistryLookup (pair_key source_lang target_lang)]
      | None \<Rightarrow>
          if source_lang = ''en'' \<and> target_lang \<in> set MULTILINGUAL_TARGETS
          then [RegistryLookup (pair_key source_lang target_lang),
                GroupingCheck source_lang target_lang, RegistryLookup ''en-mul'']
          else [RegistryLookup (pair_key source_lang target_lang),
                GroupingCheck source_lang target_lang])"

text \<open>
  The \<open>transformers\<close> library and \<open>torch\<close>, as oracles. \<open>from_pretrained\<close> fetches and
  builds a tokenizer or a model and may raise; \<open>model_to\<close> stands for
  \<open>model.to(device)\<close> followed by \<open>model.eval()\<close>. A tokenizer call encodes a batch of
  texts, \<open>generate\<close> returns rows of token ids, \<open>decode\<close> turns one row into text.
\<close>

record ('m, 't) hub =
  DEVICE :: string
  tokenizer_from_pretrained :: "nat \<Rightarrow> string \<Rightarrow> exn + 't"
  model_from_pretrained :: "nat \<Rightarrow> string \<Rightarrow> exn + 'm"
  model_to :: "nat \<Rightarrow> 'm \<Rightarrow> exn + 'm"
  tokenizer_call :: "'t \<Rightarrow> string list \<Rightarrow> exn + nat list list"
  generate :: "'m \<Rightarrow> nat list list \<Rightarrow> exn + nat list list"
  decode :: "'t \<Rightarrow> nat list \<Rightarrow> string"

record ('m, 't) hf_state = world +
  loaded_models :: "(string, 'm \<times> 't) dict"

definition hf_init :: "('m, 't) hf_state" where
  "hf_init = \<lparr>events = [], loaded_models = []\<rparr>"

definition load_model ::
  "('m, 't) hub \<Rightarrow> string \<Rightarrow> ('m, 't) hf_state \<Rightarrow> (exn + 'm \<times> 't) \<times> ('m, 't) hf_state" where
  "load_model hb model_name st =
     (case dict_get (loaded_models st) model_name of
        Some cached \<Rightarrow> (Inr cached, st)
      | None \<Rightarrow>
          let st1 = emit (TokenizerFromPretrained model_name) st in
          (case tokenizer_from_pretrained hb (now st) model_name of
             Inl e \<Rightarrow> (Inl e, st1)
           | Inr tokenizer \<Rightarrow>
               let st2 = emit (ModelFromPretrained model_name) st1 in
               (case model_from_pretrained hb (now st1) model_name of
                  Inl e \<Rightarrow> (Inl e, st2)
                | Inr model \<Rightarrow>
                    let st3 = emit (ModelTo model_name) st2 in
                    (case model_to hb (now st2) model of
                       Inl e \<Rightarrow> (Inl e, st3)
                     | Inr model' \<Rightarrow>
                         (Inr (model', tokenizer),
                          emit (Publish model_name)
                            (st3\<lparr>loaded_models :=
                                   dict_set (loaded_models st3) model_name
                                     (model', tokenizer)\<rparr>))))))"

definition translate_text :: "('m, 't) hub \<Rightarrow> string \<Rightarrow> 'm \<Rightarrow> 't \<Rightarrow> exn + string" where
  "translate_text hb text model tokenizer =
     (case tokenizer_call hb tokenizer [text] of
        Inl e \<Rightarrow> Inl e
      | Inr inputs \<Rightarrow>
          (case generate hb model inputs of
             Inl e \<Rightarrow> Inl e
           | Inr translated_ids \<Rightarrow>
               (case translated_ids of
                  [] \<Rightarrow> Inl (Exn ''IndexError'')
                | ids # _ \<Rightarrow> Inr (decode hb tokenizer ids))))"

definition translate_batch :: "('m, 't) hub \<Rightarrow> string list \<Rightarrow> 'm \<Rightarrow> 't \<Rightarrow> exn + string list" where
  "translate_batch hb texts model tokenizer =
     (case tokenizer_call hb tokenizer texts of
        Inl e \<Rightarrow> Inl e
      | Inr inputs \<Rightarrow>
          (case generate hb model inputs of
             Inl e \<Rightarrow> Inl e
           | Inr translated_ids \<Rightarrow> Inr (map (decode hb tokenizer) translated_ids)))"

text \<open>One iteration of the preload loop of \<open>lifespan\<close>, and the loop over the
  module-level list \<open>PRELOAD_MODELS\<close>.\<close>

definition hf_preload_pair :: "('m, 't) hub \<Rightarrow> string \<Rightarrow> ('m, 't) hf_state \<Rightarrow> ('m, 't) hf_state" where
  "hf_preload_pair hb pair st =
     (let pair' = strip pair in
      if pair' \<noteq> [] then
        (case split_sep (CHR ''-'') pair' of
           [p0, p1] \<Rightarrow>
             (case get_model_name p0 p1 of
                None \<Rightarrow> st
              | Some model_name \<Rightarrow>
                  if model_name = [] then st
                  else
                    (case load_model hb model_name st of
                       (Inl e, st') \<Rightarrow> emit (LogError (PreloadFailed model_name e)) st'
                     | (Inr loaded_pair, st') \<Rightarrow> st'))
         | _ \<Rightarrow> st)
      else st)"

fun hf_preload :: "('m, 't) hub \<Rightarrow> string list \<Rightarrow> ('m, 't) hf_state \<Rightarrow> ('m, 't) hf_state" where
  "hf_preload hb [] st = st"
| "hf_preload hb (pair # pairs) st = hf_preload hb pairs (hf_preload_pair hb pair st)"

definition hf_lifespan :: "('m, 't) hub \<Rightarrow> string \<Rightarrow> ('m, 't) hf_state \<Rightarrow> ('m, 't) hf_state" where
  "hf_lifespan hb PRELOAD_MODELS st = hf_preload hb (split_sep (CHR '','') PRELOAD_MODELS) st"

datatype hf_translation_response = TranslationResponse string string string string

datatype hf_batch_translation_response =
  BatchTranslationResponse "string list" string string string nat

definition hf_translate ::
  "('m, 't) hub \<Rightarrow> translation_request \<Rightarrow> ('m, 't) hf_state
     \<Rightarrow> (http_exception + hf_translation_response) \<times> ('m, 't) hf_state" where
  "hf_translate hb request st =
     (let s = req_source_lang request; t = req_target_lang request in
      case get_model_name s t of
        None \<Rightarrow> (Inl (unsupported_pair s t), st)
      | Some model_name \<Rightarrow>
          if model_name = [] then (Inl (unsupported_pair s t), st)
          else
            (case load_model hb model_name st of
               (Inl e, st') \<Rightarrow>
                 (Inl (HTTPException 500 (''Translation failed: '' @ exn_str e)),
                  emit (LogError (TranslationFailed e)) st')
             | (Inr (model, tokenizer), st') \<Rightarrow>
                 (case translate_text hb (req_text request) model tokenizer of
                    Inl e \<Rightarrow>
                      (Inl (HTTPException 500 (''Translation failed: '' @ exn_str e)),
                       emit (LogError (TranslationFailed e)) st')
                  | Inr translated \<Rightarrow>
                      (Inr (TranslationResponse translated s t model_name), st'))))"

definition translate_batch_endpoint ::
  "('m, 't) hub \<Rightarrow> batch_translation_request \<Rightarrow> ('m, 't) hf_state
     \<Rightarrow> (http_exception + hf_batch_translation_response) \<times> ('m, 't) hf_state" where
  "translate_batch_endpoint hb request st =
     (let s = breq_source_lang request; t = breq_target_lang request in
      case get_model_name s t of
        None \<Rightarrow> (Inl (unsupported_pair s t), st)
      | Some model_name \<Rightarrow>
          if model_name = [] then (Inl (unsupported_pair s t), st)
          else
            (case load_model hb model_name st of
               (Inl e, st') \<Rightarrow>
                 (Inl (HTTPException 500 (''Batch translation failed: '' @ exn_str e)),
                  emit (LogError (BatchTranslationFailed e)) st')
             | (Inr (model, tokenizer), st') \<Rightarrow>
                 (case translate_batch hb (req_texts request) model tokenizer of
                    Inl e \<Rightarrow>
                      (Inl (HTTPException 500 (''Batch translation failed: '' @ exn_str e)),
                       emit (LogError (BatchTranslationFailed e)) st')
                  | Inr out \<Rightarrow>
                      (Inr (BatchTranslationResponse out s t model_name (length out)), st'))))"

definition readiness ::
  "('m, 't) hub \<Rightarrow> ('m, 't) hf_state \<Rightarrow> (http_exception + string) \<times> ('m, 't) hf_state" where
  "readiness hb st =
     (if length (loaded_models st) > 0 then (Inr ''ready'', st)
      else
        (case MODEL_MAPPING ''en-hi'' of
           None \<Rightarrow> (Inl (HTTPException 503 ''Service not ready''), st)
         | Some model_name \<Rightarrow>
             if model_name = [] then (Inl (HTTPException 503 ''Service not ready''), st)
             else
               (case load_model hb model_name st of
                  (Inl e, st') \<Rightarrow>
                    (Inl (HTTPException 503 ''Service not ready''),
                     emit (LogError (ReadinessFailed e)) st')
                | (Inr loaded_pair, st') \<Rightarrow> (Inr ''ready'', st'))))"

definition hf_health_check ::
  "('m, 't) hub \<Rightarrow> ('m, 't) hf_state \<Rightarrow> string \<times> string \<times> nat \<times> nat" where
  "hf_health_check hb st =
     (''healthy'', DEVICE hb, length (loaded_models st), length MODEL_MAPPING_items)"

definition hf_get_loaded_models ::
  "('m, 't) hub \<Rightarrow> ('m, 't) hf_state \<Rightarrow> string list \<times> nat \<times> string" where
  "hf_get_loaded_models hb st =
     (dict_keys (loaded_models st), length (loaded_models st), DEVICE hb)"

datatype hf_request =
    HTranslate translation_request
  | HTranslateBatch batch_translation_request
  | HHealth
  | HReadiness
  | HLanguages
  | HModels
  | HLifespan string

definition hf_step ::
  "('m, 't) hub \<Rightarrow> hf_request \<Rightarrow> ('m, 't) hf_state \<Rightarrow> ('m, 't) hf_state" where
  "hf_step hb r st =
     (case r of
        HTranslate request \<Rightarrow> snd (hf_translate hb request st)
      | HTranslateBatch request \<Rightarrow> snd (translate_batch_endpoint hb request st)
      | HHealth \<Rightarrow> st
      | HReadiness \<Rightarrow> snd (readiness hb st)
      | HLanguages \<Rightarrow> st
      | HModels \<Rightarrow> st
      | HLifespan PRELOAD_MODELS \<Rightarrow> hf_lifespan hb PRELOAD_MODELS st)"

fun hf_run :: "('m, 't) hub \<Rightarrow> hf_request list \<Rightarrow> ('m, 't) hf_state \<Rightarrow> ('m, 't) hf_state" where
  "hf_run hb [] st = st"
| "hf_run hb (r # rs) st = hf_run hb rs (hf_step hb r st)"

section \<open>Engine branches\<close>

text \<open>
  C10. In the Bergamot service the three engine branches compute the same translation:
  for every text, source language and target language each branch returns
  \<open>"[" + source_lang + "->" + target_lang + "] " + text\<close>, whatever the two availability
  flags are; only the reported engine label depends on them.
\<close>

theorem engine_branches_identical:
  "translate_with_bergamot text s t = ''['' @ s @ ''->'' @ t @ ''] '' @ text
   \<and> translate_with_ctranslate2 text s t = ''['' @ s @ ''->'' @ t @ ''] '' @ text
   \<and> fst (translate_one eng text s t) = ''['' @ s @ ''->'' @ t @ ''] '' @ text
   \<and> fst (translate_one eng text s t) = fst (translate_one eng' text s t)"
  by (simp add: translate_with_bergamot_def translate_with_ctranslate2_def translate_one_def)

end
